theory Spec2Isabelle
  imports Complex_Main
begin

section \<open>Data model\<close>

text \<open>
  JavaScript numbers are modelled as finite reals (exact arithmetic): rounding, NaN and
  the infinities are outside the model. Wherever the source can divide by zero while its
  inputs respect the constructor's invariants, the JavaScript result is written out.
  Components are values owned by their entity (no two entities share a component object).
\<close>

record vec2 =
  x :: real
  y :: real

record transform =
  position :: vec2
  rotation :: real
  angle :: real
  scale :: real

record rigidbody =
  velocity :: vec2
  angularVelocity :: real
  gravity :: real
  friction :: real
  restitution :: real
  mass :: real
  buoyancy :: real

record collider =
  radius :: real

section \<open>RigidBody\<close>

text \<open>The constructor of \<open>RigidBody\<close>: every field as given, a non-positive mass replaced by 1.\<close>

definition RigidBody_new ::
  "vec2 \<Rightarrow> real \<Rightarrow> real \<Rightarrow> real \<Rightarrow> real \<Rightarrow> real \<Rightarrow> real \<Rightarrow> rigidbody" where
  "RigidBody_new vel av g f r m b =
     \<lparr>velocity = vel, angularVelocity = av, gravity = g, friction = f, restitution = r,
      mass = (if m \<le> 0 then 1 else m), buoyancy = b\<rparr>"

text \<open>
  \<open>RigidBody.update(go, dt)\<close>: the receiver is the first argument, the second is
  \<open>go.getComponent(Transform)\<close>. Without a Transform nothing changes.
\<close>

definition RigidBody_update :: "rigidbody \<Rightarrow> transform option \<Rightarrow> real \<Rightarrow> rigidbody \<times> transform option" where
  "RigidBody_update this topt dt =
     (case topt of
        None \<Rightarrow> (this, None)
      | Some t \<Rightarrow>
          (let vy1 = y (velocity this) + (gravity this - buoyancy this) * dt;
               vx2 = x (velocity this) * (1 - friction this);
               vy2 = vy1 * (1 - friction this);
               px = x (position t) + vx2 * dt;
               py = y (position t) + vy2 * dt;
               ang = angle t + angularVelocity this * dt
           in (this\<lparr>velocity := \<lparr>x = vx2, y = vy2\<rparr>\<rparr>,
               Some (t\<lparr>position := \<lparr>x = px, y = py\<rparr>, angle := ang\<rparr>))))"

text \<open>
  The same method in the other revision of the engine (\<open>src/MiniGameKit.js\<close>): gravity,
  then the position and angle, then the damping, which there also covers the angular velocity.
\<close>

definition RigidBody_update_MGK :: "rigidbody \<Rightarrow> transform option \<Rightarrow> real \<Rightarrow> rigidbody \<times> transform option" where
  "RigidBody_update_MGK this topt dt =
     (case topt of
        None \<Rightarrow> (this, None)
      | Some t \<Rightarrow>
          (let vy1 = y (velocity this) + (gravity this - buoyancy this) * dt;
               px = x (position t) + x (velocity this) * dt;
               py = y (position t) + vy1 * dt;
               ang = angle t + angularVelocity this * dt;
               vx2 = x (velocity this) * (1 - friction this);
               vy2 = vy1 * (1 - friction this);
               av2 = angularVelocity this * (1 - friction this)
           in (this\<lparr>velocity := \<lparr>x = vx2, y = vy2\<rparr>, angularVelocity := av2\<rparr>,
               Some (t\<lparr>position := \<lparr>x = px, y = py\<rparr>, angle := ang\<rparr>))))"

section \<open>Boundary handling\<close>

text \<open>
  The body of \<open>Game.handleBoundary\<close> once the three components are found; the first two
  arguments are \<open>canvas.width\<close> and \<open>canvas.height\<close>.
\<close>

definition handleBoundary_clamp ::
  "real \<Rightarrow> real \<Rightarrow> transform \<Rightarrow> rigidbody \<Rightarrow> collider \<Rightarrow> transform \<times> rigidbody" where
  "handleBoundary_clamp w h t rb col =
     (let r = radius col;
          (px, vx) =
            (if x (position t) - r < 0 then (r, \<bar>x (velocity rb)\<bar>)
             else if x (position t) + r > w then (w - r, - \<bar>x (velocity rb)\<bar>)
             else (x (position t), x (velocity rb)));
          (py, vy) =
            (if y (position t) - r < 0 then (r, \<bar>y (velocity rb)\<bar>)
             else if y (position t) + r > h then (h - r, - \<bar>y (velocity rb)\<bar>)
             else (y (position t), y (velocity rb)))
      in (t\<lparr>position := \<lparr>x = px, y = py\<rparr>\<rparr>, rb\<lparr>velocity := \<lparr>x = vx, y = vy\<rparr>\<rparr>))"

section \<open>Collision of one pair\<close>

text \<open>\<open>Math.hypot\<close> of two arguments.\<close>

definition hypot :: "real \<Rightarrow> real \<Rightarrow> real" where
  "hypot a b = sqrt (a\<^sup>2 + b\<^sup>2)"

text \<open>
  The body of the inner loop of \<open>CollisionSystem.update\<close> from the computation of \<open>dx\<close> on,
  for two entities whose Collider and Transform were found; \<open>aRigid\<close> and \<open>bRigid\<close> are the
  results of \<open>getComponent(RigidBody)\<close>. The result holds the two Transforms and the two
  RigidBodies after the step.

  \<open>dx / dist || 0\<close>: when \<open>dist\<close> is 0 so is \<open>dx\<close>, the quotient is NaN and \<open>||\<close> replaces
  it by 0; a quotient that is 0 is replaced by 0 as well. The divisions by masses are the
  real ones, which agree with the source as long as the masses are positive.
\<close>

definition collide ::
  "transform \<Rightarrow> rigidbody option \<Rightarrow> collider \<Rightarrow> transform \<Rightarrow> rigidbody option \<Rightarrow> collider
     \<Rightarrow> transform \<times> rigidbody option \<times> transform \<times> rigidbody option" where
  "collide aTransform aRigid aCollider bTransform bRigid bCollider =
     (let dx = x (position bTransform) - x (position aTransform);
          dy = y (position bTransform) - y (position aTransform);
          dist = hypot dx dy;
          minDist = radius aCollider + radius bCollider
      in if dist < minDist then
           (let overlap = minDist - dist;
                nx = (if dist = 0 then 0 else dx / dist);
                ny = (if dist = 0 then 0 else dy / dist)
            in case (aRigid, bRigid) of
                 (Some ar, Some br) \<Rightarrow>
                   (let totalMass = mass ar + mass br;
                        correctionA = overlap * (mass br / totalMass);
                        correctionB = overlap * (mass ar / totalMass);
                        aT = aTransform\<lparr>position :=
                               \<lparr>x = x (position aTransform) - nx * correctionA,
                                y = y (position aTransform) - ny * correctionA\<rparr>\<rparr>;
                        bT = bTransform\<lparr>position :=
                               \<lparr>x = x (position bTransform) + nx * correctionB,
                                y = y (position bTransform) + ny * correctionB\<rparr>\<rparr>;
                        relVelX = x (velocity br) - x (velocity ar);
                        relVelY = y (velocity br) - y (velocity ar);
                        velAlongNormal = relVelX * nx + relVelY * ny
                    in if velAlongNormal > 0 then (aT, aRigid, bT, bRigid)
                       else
                         (let e = min (restitution ar) (restitution br);
                              j = - (1 + e) * velAlongNormal / (1 / mass ar + 1 / mass br);
                              impulseX = j * nx;
                              impulseY = j * ny
                          in (aT,
                              Some (ar\<lparr>velocity :=
                                \<lparr>x = x (velocity ar) - impulseX / mass ar,
                                 y = y (velocity ar) - impulseY / mass ar\<rparr>\<rparr>),
                              bT,
                              Some (br\<lparr>velocity :=
                                \<lparr>x = x (velocity br) + impulseX / mass br,
                                 y = y (velocity br) + impulseY / mass br\<rparr>\<rparr>))))
               | _ \<Rightarrow> (aTransform, aRigid, bTransform, bRigid))
         else (aTransform, aRigid, bTransform, bRigid))"

text \<open>
  The quantities of the design, in its own words: the distance of the two centres, the
  overlap, the unit normal from A to B (the zero vector for coincident centres), the
  restitution of the pair and the relative velocity along the normal.
\<close>

definition centre_distance :: "transform \<Rightarrow> transform \<Rightarrow> real" where
  "centre_distance a b =
     sqrt ((x (position b) - x (position a))\<^sup>2 + (y (position b) - y (position a))\<^sup>2)"

definition pair_overlap :: "transform \<Rightarrow> collider \<Rightarrow> transform \<Rightarrow> collider \<Rightarrow> real" where
  "pair_overlap a ca b cb = radius ca + radius cb - centre_distance a b"

definition pair_normal :: "transform \<Rightarrow> transform \<Rightarrow> vec2" where
  "pair_normal a b =
     (if centre_distance a b = 0 then \<lparr>x = 0, y = 0\<rparr>
      else \<lparr>x = (x (position b) - x (position a)) / centre_distance a b,
            y = (y (position b) - y (position a)) / centre_distance a b\<rparr>)"

definition dot :: "vec2 \<Rightarrow> vec2 \<Rightarrow> real" where
  "dot u v = x u * x v + y u * y v"

definition rel_velocity :: "rigidbody \<Rightarrow> rigidbody \<Rightarrow> vec2" where
  "rel_velocity ra rb =
     \<lparr>x = x (velocity rb) - x (velocity ra), y = y (velocity rb) - y (velocity ra)\<rparr>"

definition momentum :: "rigidbody \<Rightarrow> rigidbody \<Rightarrow> vec2" where
  "momentum ra rb =
     \<lparr>x = mass ra * x (velocity ra) + mass rb * x (velocity rb),
      y = mass ra * y (velocity ra) + mass rb * y (velocity rb)\<rparr>"

definition impulse_scalar :: "rigidbody \<Rightarrow> rigidbody \<Rightarrow> vec2 \<Rightarrow> real" where
  "impulse_scalar ra rb n =
     - (1 + min (restitution ra) (restitution rb)) * dot (rel_velocity ra rb) n
       / (1 / mass ra + 1 / mass rb)"

section \<open>Entities\<close>

text \<open>
  A \<open>GameObject\<close> is its ordered list of components. \<open>Other\<close> stands for the components
  that never touch a Transform, a RigidBody or a Collider (\<open>Circle\<close>, \<open>SpriteRenderer\<close>).
  Plugins attached to an entity are code of the caller; the entities here carry none.
\<close>

datatype component =
  TransformC transform
| RigidBodyC rigidbody
| ColliderC collider
| Other

record gameobject =
  components :: "component list"

text \<open>\<open>getComponent(type)\<close>: the first component of the type, for each of the three types.\<close>

fun firstTransform :: "component list \<Rightarrow> transform option" where
  "firstTransform [] = None"
| "firstTransform (TransformC t # cs) = Some t"
| "firstTransform (c # cs) = firstTransform cs"

fun firstRigidBody :: "component list \<Rightarrow> rigidbody option" where
  "firstRigidBody [] = None"
| "firstRigidBody (RigidBodyC r # cs) = Some r"
| "firstRigidBody (c # cs) = firstRigidBody cs"

fun firstCollider :: "component list \<Rightarrow> collider option" where
  "firstCollider [] = None"
| "firstCollider (ColliderC c # cs) = Some c"
| "firstCollider (c # cs) = firstCollider cs"

definition getTransform :: "gameobject \<Rightarrow> transform option" where
  "getTransform go = firstTransform (components go)"

definition getRigidBody :: "gameobject \<Rightarrow> rigidbody option" where
  "getRigidBody go = firstRigidBody (components go)"

definition getCollider :: "gameobject \<Rightarrow> collider option" where
  "getCollider go = firstCollider (components go)"

text \<open>
  The source mutates the object that \<open>getComponent\<close> returned; in the model the new value
  replaces the first component of that type.
\<close>

fun replaceTransform :: "transform \<Rightarrow> component list \<Rightarrow> component list" where
  "replaceTransform t' [] = []"
| "replaceTransform t' (TransformC t # cs) = TransformC t' # cs"
| "replaceTransform t' (c # cs) = c # replaceTransform t' cs"

fun replaceRigidBody :: "rigidbody \<Rightarrow> component list \<Rightarrow> component list" where
  "replaceRigidBody r' [] = []"
| "replaceRigidBody r' (RigidBodyC r # cs) = RigidBodyC r' # cs"
| "replaceRigidBody r' (c # cs) = c # replaceRigidBody r' cs"

definition setTransform :: "transform \<Rightarrow> gameobject \<Rightarrow> gameobject" where
  "setTransform t go = go\<lparr>components := replaceTransform t (components go)\<rparr>"

definition setRigidBody :: "rigidbody option \<Rightarrow> gameobject \<Rightarrow> gameobject" where
  "setRigidBody ropt go =
     (case ropt of None \<Rightarrow> go
      | Some r \<Rightarrow> go\<lparr>components := replaceRigidBody r (components go)\<rparr>)"

text \<open>
  \<open>GameObject.update(dt)\<close> calls \<open>update\<close> on every component in order. Only a RigidBody
  does anything: \<open>component_update k\<close> is the call on the component at index \<open>k\<close>.
\<close>

definition component_update :: "nat \<Rightarrow> gameobject \<Rightarrow> real \<Rightarrow> gameobject" where
  "component_update k go dt =
     (case components go ! k of
        RigidBodyC this \<Rightarrow>
          (case RigidBody_update this (getTransform go) dt of
             (this', topt) \<Rightarrow>
               (let go' = go\<lparr>components := (components go)[k := RigidBodyC this']\<rparr>
                in case topt of None \<Rightarrow> go' | Some t' \<Rightarrow> setTransform t' go'))
      | _ \<Rightarrow> go)"

definition GameObject_update :: "gameobject \<Rightarrow> real \<Rightarrow> gameobject" where
  "GameObject_update go dt =
     foldl (\<lambda>g k. component_update k g dt) go [0..<length (components go)]"

section \<open>The game and its tick\<close>

text \<open>
  The plugins of the engine: \<open>CollisionSystem\<close> and the base class \<open>Plugin\<close>, whose \<open>update\<close>
  is empty. A failed property access on \<open>undefined\<close> is the only exception of the tick.
\<close>

datatype plugin = CollisionSystem | Plugin

datatype error = TypeError

text \<open>
  The trace is not a field of the source: it records, in order, that the resolver has read
  the position of the Transform of entity \<open>i\<close> (\<open>Inspected i\<close>) and that \<open>obj.update(dt)\<close>,
  and with it the integration of its RigidBody, has returned for entity \<open>i\<close> (\<open>Updated i\<close>).
\<close>

datatype event = is_Inspected: Inspected nat | is_Updated: Updated nat

record game =
  objects :: "gameobject list"
  plugins :: "plugin list"
  boundaryEnabled :: bool
  canvas_width :: real
  canvas_height :: real
  trace :: "event list"

definition handleBoundary :: "game \<Rightarrow> gameobject \<Rightarrow> gameobject" where
  "handleBoundary g obj =
     (case (getTransform obj, getRigidBody obj, getCollider obj) of
        (Some t, Some rb, Some col) \<Rightarrow>
          (case handleBoundary_clamp (canvas_width g) (canvas_height g) t rb col of
             (t', rb') \<Rightarrow> setRigidBody (Some rb') (setTransform t' obj))
      | _ \<Rightarrow> obj)"

text \<open>
  The body of the inner loop of \<open>CollisionSystem.update\<close> for the indices \<open>i < j\<close>, with the
  Collider of \<open>objs[i]\<close> found by the outer loop. Reading \<open>position\<close> of a missing Transform
  throws.
\<close>

definition inner_body :: "nat \<Rightarrow> collider \<Rightarrow> nat \<Rightarrow> game \<Rightarrow> error + game" where
  "inner_body i aCollider j scene =
     (let a = objects scene ! i; b = objects scene ! j
      in case getCollider b of
           None \<Rightarrow> Inr scene
         | Some bCollider \<Rightarrow>
             (case getTransform b of
                None \<Rightarrow> Inl TypeError
              | Some bTransform \<Rightarrow>
                  (case getTransform a of
                     None \<Rightarrow> Inl TypeError
                   | Some aTransform \<Rightarrow>
                       (case collide aTransform (getRigidBody a) aCollider
                               bTransform (getRigidBody b) bCollider of
                          (aT, aR, bT, bR) \<Rightarrow>
                            Inr (scene\<lparr>objects := (objects scene)
                                   [i := setRigidBody aR (setTransform aT a),
                                    j := setRigidBody bR (setTransform bT b)],
                                 trace := trace scene @ [Inspected j, Inspected i]\<rparr>)))))"

fun inner_loop :: "nat \<Rightarrow> collider \<Rightarrow> nat list \<Rightarrow> game \<Rightarrow> error + game" where
  "inner_loop i aCollider [] scene = Inr scene"
| "inner_loop i aCollider (j # js) scene =
     (case inner_body i aCollider j scene of
        Inl e \<Rightarrow> Inl e
      | Inr scene' \<Rightarrow> inner_loop i aCollider js scene')"

definition outer_body :: "nat \<Rightarrow> game \<Rightarrow> error + game" where
  "outer_body i scene =
     (case getCollider (objects scene ! i) of
        None \<Rightarrow> Inr scene
      | Some aCollider \<Rightarrow> inner_loop i aCollider [i + 1..<length (objects scene)] scene)"

fun outer_loop :: "nat list \<Rightarrow> game \<Rightarrow> error + game" where
  "outer_loop [] scene = Inr scene"
| "outer_loop (i # is) scene =
     (case outer_body i scene of
        Inl e \<Rightarrow> Inl e
      | Inr scene' \<Rightarrow> outer_loop is scene')"

definition CollisionSystem_update :: "game \<Rightarrow> real \<Rightarrow> error + game" where
  "CollisionSystem_update scene dt = outer_loop [0..<length (objects scene)] scene"

fun plugin_update :: "plugin \<Rightarrow> game \<Rightarrow> real \<Rightarrow> error + game" where
  "plugin_update CollisionSystem g dt = CollisionSystem_update g dt"
| "plugin_update Plugin g dt = Inr g"

fun plugins_loop :: "plugin list \<Rightarrow> game \<Rightarrow> real \<Rightarrow> error + game" where
  "plugins_loop [] g dt = Inr g"
| "plugins_loop (p # ps) g dt =
     (case plugin_update p g dt of
        Inl e \<Rightarrow> Inl e
      | Inr g' \<Rightarrow> plugins_loop ps g' dt)"

text \<open>The callback of \<open>objects.forEach\<close> in \<open>Game.update\<close>, for the entity at index \<open>i\<close>.\<close>

definition object_step :: "real \<Rightarrow> game \<Rightarrow> nat \<Rightarrow> game" where
  "object_step dt g i =
     (let obj = GameObject_update (objects g ! i) dt;
          obj' = (if boundaryEnabled g then handleBoundary g obj else obj)
      in g\<lparr>objects := (objects g)[i := obj'], trace := trace g @ [Updated i]\<rparr>)"

text \<open>\<open>Game.update(dt)\<close>: first every plugin, then every entity.\<close>

definition Game_update :: "game \<Rightarrow> real \<Rightarrow> error + game" where
  "Game_update g dt =
     (case plugins_loop (plugins g) g dt of
        Inl e \<Rightarrow> Inl e
      | Inr g' \<Rightarrow> Inr (foldl (object_step dt) g' [0..<length (objects g')]))"

text \<open>The events of one tick, when it completes.\<close>

definition tick_trace :: "game \<Rightarrow> real \<Rightarrow> event list option" where
  "tick_trace g dt =
     (case Game_update (g\<lparr>trace := []\<rparr>) dt of Inl e \<Rightarrow> None | Inr g' \<Rightarrow> Some (trace g'))"

text \<open>
  Two shapes of a trace: every update before every inspection, and every inspection before
  every update.
\<close>

definition updates_then_inspections :: "event list \<Rightarrow> bool" where
  "updates_then_inspections tr = list_all is_Inspected (dropWhile is_Updated tr)"

definition inspections_then_updates :: "event list \<Rightarrow> bool" where
  "inspections_then_updates tr = list_all is_Updated (dropWhile is_Inspected tr)"

text \<open>Every entity of the list that carries a Collider also carries a Transform.\<close>

definition colliders_placed :: "gameobject list \<Rightarrow> bool" where
  "colliders_placed objs =
     list_all (\<lambda>obj. getCollider obj \<noteq> None \<longrightarrow> getTransform obj \<noteq> None) objs"

section \<open>Constructors and sample scenes\<close>

text \<open>
  The constructors of \<open>Transform\<close>, \<open>Collider\<close>, \<open>GameObject\<close> and \<open>Game\<close> (the canvas reduced
  to its width and height), and \<open>addComponent\<close>, whose call of \<open>start\<close> does nothing for the
  components of the engine.
\<close>

definition Transform_new :: "real \<Rightarrow> real \<Rightarrow> real \<Rightarrow> real \<Rightarrow> real \<Rightarrow> transform" where
  "Transform_new px py rot ang sc =
     \<lparr>position = \<lparr>x = px, y = py\<rparr>, rotation = rot, angle = ang, scale = sc\<rparr>"

definition Collider_new :: "real \<Rightarrow> collider" where
  "Collider_new r = \<lparr>radius = r\<rparr>"

definition GameObject_new :: gameobject where
  "GameObject_new = \<lparr>components = []\<rparr>"

definition addComponent :: "component \<Rightarrow> gameobject \<Rightarrow> gameobject" where
  "addComponent c go = go\<lparr>components := components go @ [c]\<rparr>"

definition Game_new :: "real \<Rightarrow> real \<Rightarrow> game" where
  "Game_new w h =
     \<lparr>objects = [], plugins = [], boundaryEnabled = False,
      canvas_width = w, canvas_height = h, trace = []\<rparr>"

text \<open>
  Sample entities: a dynamic ball (Transform, RigidBody, Collider) at a position with a
  velocity, a mass and a radius, and an obstacle without RigidBody (Transform, Collider).
\<close>

definition ball :: "real \<Rightarrow> real \<Rightarrow> vec2 \<Rightarrow> real \<Rightarrow> real \<Rightarrow> gameobject" where
  "ball px py vel m r =
     addComponent (ColliderC (Collider_new r))
       (addComponent (RigidBodyC (RigidBody_new vel 0 980 (1/20) (7/10) m 0))
          (addComponent (TransformC (Transform_new px py 0 0 1)) GameObject_new))"

definition obstacle :: "real \<Rightarrow> real \<Rightarrow> real \<Rightarrow> gameobject" where
  "obstacle px py r =
     addComponent (ColliderC (Collider_new r))
       (addComponent (TransformC (Transform_new px py 0 0 1)) GameObject_new)"

text \<open>Two balls of radius 10 overlapping by 4 along the x axis, with the resolver installed.\<close>

definition two_balls :: game where
  "two_balls =
     (Game_new 300 150)
       \<lparr>objects := [ball 100 50 \<lparr>x = 3, y = 0\<rparr> 1 10, ball 116 50 \<lparr>x = - 1, y = 0\<rparr> 1 10],
        plugins := [CollisionSystem], boundaryEnabled := True\<rparr>"

section \<open>Integration\<close>

lemmas get_defs = getTransform_def getRigidBody_def getCollider_def

lemmas new_defs = ball_def obstacle_def addComponent_def GameObject_new_def Collider_new_def
  Transform_new_def RigidBody_new_def Game_new_def

lemma RigidBody_new_mass_pos: "0 < mass (RigidBody_new vel av g f r m b)"
  by (simp add: RigidBody_new_def)

lemma RigidBody_update_no_Transform: "RigidBody_update this None dt = (this, None)"
  by (simp add: RigidBody_update_def)

text \<open>
  Claim C2. For every \<open>dt \<ge> 0\<close> and every body with gravity \<open>g\<close>, buoyancy 0, friction 0
  and zero velocity, one call of \<open>RigidBody.update\<close> on an entity with a Transform leaves
  \<open>velocity.y = g * dt\<close> and adds exactly \<open>g * dt * dt\<close> to \<open>position.y\<close>.
\<close>

theorem RigidBody_update_free_fall:
  assumes "0 \<le> dt"
    and "gravity this = g" and "buoyancy this = 0" and "friction this = 0"
    and "velocity this = \<lparr>x = 0, y = 0\<rparr>"
  shows "\<exists>this' t'. RigidBody_update this (Some t) dt = (this', Some t')
           \<and> y (velocity this') = g * dt
           \<and> y (position t') = y (position t) + g * dt * dt"
  using assms by (simp add: RigidBody_update_def Let_def)

theorem RigidBody_update_free_fall_witness:
  "\<exists>this' t'. RigidBody_update (RigidBody_new \<lparr>x = 0, y = 0\<rparr> 0 980 0 (7/10) 1 0)
       (Some (Transform_new 0 0 0 0 1)) (1/2) = (this', Some t')
     \<and> y (velocity this') = 490 \<and> y (position t') = 245"
  using RigidBody_update_free_fall [of "1/2" "RigidBody_new \<lparr>x = 0, y = 0\<rparr> 0 980 0 (7/10) 1 0" 980
      "Transform_new 0 0 0 0 1"]
  by (simp add: RigidBody_new_def Transform_new_def)

text \<open>
  Claim C7. Each call of \<open>RigidBody.update\<close> multiplies \<open>angularVelocity\<close> by \<open>1 - friction\<close>.
  The current revision of the method does not: with angular velocity 2 and friction 1/2 the
  angular velocity is still 2 after the call, where the other revision of the same method
  gives 1.
\<close>

theorem RigidBody_update_angularVelocity_undamped:
  "angularVelocity (fst (RigidBody_update (RigidBody_new \<lparr>x = 0, y = 0\<rparr> 2 980 (1/2) (7/10) 1 0)
      (Some (Transform_new 0 0 0 0 1)) (1/60))) = 2
   \<and> angularVelocity (fst (RigidBody_update_MGK (RigidBody_new \<lparr>x = 0, y = 0\<rparr> 2 980 (1/2) (7/10) 1 0)
      (Some (Transform_new 0 0 0 0 1)) (1/60))) = 2 * (1 - 1/2)"
  by (simp add: RigidBody_update_def RigidBody_update_MGK_def Let_def new_defs)

lemma RigidBody_update_angularVelocity:
  "angularVelocity (fst (RigidBody_update this topt dt)) = angularVelocity this"
  by (simp add: RigidBody_update_def Let_def split: option.splits)

lemma RigidBody_update_MGK_angularVelocity:
  "angularVelocity (fst (RigidBody_update_MGK this (Some t) dt))
     = angularVelocity this * (1 - friction this)"
  by (simp add: RigidBody_update_MGK_def Let_def)

section \<open>Component lookup\<close>

lemma firstTransform_replaceTransform:
  "firstTransform (replaceTransform t cs) = (if firstTransform cs = None then None else Some t)"
  by (induction t cs rule: replaceTransform.induct) simp_all

lemma firstRigidBody_replaceTransform: "firstRigidBody (replaceTransform t cs) = firstRigidBody cs"
  by (induction t cs rule: replaceTransform.induct) simp_all

lemma firstCollider_replaceTransform: "firstCollider (replaceTransform t cs) = firstCollider cs"
  by (induction t cs rule: replaceTransform.induct) simp_all

lemma firstRigidBody_replaceRigidBody:
  "firstRigidBody (replaceRigidBody r cs) = (if firstRigidBody cs = None then None else Some r)"
  by (induction r cs rule: replaceRigidBody.induct) simp_all

lemma firstTransform_replaceRigidBody: "firstTransform (replaceRigidBody r cs) = firstTransform cs"
  by (induction r cs rule: replaceRigidBody.induct) simp_all

lemma firstCollider_replaceRigidBody: "firstCollider (replaceRigidBody r cs) = firstCollider cs"
  by (induction r cs rule: replaceRigidBody.induct) simp_all

lemma replaceTransform_same: "firstTransform cs = Some t \<Longrightarrow> replaceTransform t cs = cs"
  by (induction t cs rule: replaceTransform.induct) simp_all

lemma replaceRigidBody_same: "firstRigidBody cs = Some r \<Longrightarrow> replaceRigidBody r cs = cs"
  by (induction r cs rule: replaceRigidBody.induct) simp_all

lemma setTransform_same: "getTransform go = Some t \<Longrightarrow> setTransform t go = go"
  by (simp add: getTransform_def setTransform_def replaceTransform_same)

lemma setRigidBody_same: "getRigidBody go = ropt \<Longrightarrow> setRigidBody ropt go = go"
  by (cases ropt) (simp_all add: getRigidBody_def setRigidBody_def replaceRigidBody_same)

lemma ball_components:
  "getTransform (ball px py vel m r) = Some (Transform_new px py 0 0 1)"
  "getRigidBody (ball px py vel m r) = Some (RigidBody_new vel 0 980 (1/20) (7/10) m 0)"
  "getCollider (ball px py vel m r) = Some (Collider_new r)"
  by (simp_all add: ball_def addComponent_def GameObject_new_def get_defs)

lemma obstacle_components:
  "getTransform (obstacle px py r) = Some (Transform_new px py 0 0 1)"
  "getRigidBody (obstacle px py r) = None"
  "getCollider (obstacle px py r) = Some (Collider_new r)"
  by (simp_all add: obstacle_def addComponent_def GameObject_new_def get_defs)

section \<open>Boundary handling: the clamp\<close>

lemma handleBoundary_missing:
  assumes "getTransform obj = None \<or> getRigidBody obj = None \<or> getCollider obj = None"
  shows "handleBoundary g obj = obj"
  using assms by (auto simp: handleBoundary_def split: option.splits)

lemma handleBoundary_found:
  assumes "getTransform obj = Some t" and "getRigidBody obj = Some rb" and "getCollider obj = Some col"
    and "handleBoundary_clamp (canvas_width g) (canvas_height g) t rb col = (t', rb')"
  shows "getTransform (handleBoundary g obj) = Some t'"
    and "getRigidBody (handleBoundary g obj) = Some rb'"
  using assms
  by (simp_all add: handleBoundary_def getTransform_def getRigidBody_def setTransform_def
      setRigidBody_def firstTransform_replaceTransform firstRigidBody_replaceTransform
      firstRigidBody_replaceRigidBody firstTransform_replaceRigidBody)

text \<open>
  Claim C5, as the code has it. For an entity with Transform, RigidBody and Collider of
  radius \<open>r\<close>, on each axis: if \<open>position - r\<close> is below 0, the position becomes exactly \<open>r\<close>
  and the velocity its absolute value (so non-negative); otherwise, if \<open>position + r\<close> is
  beyond the width (height) of the canvas, the position becomes exactly width (height) minus
  \<open>r\<close> and the velocity minus its absolute value (so non-positive). The high edge is only
  looked at when the low edge is not crossed.
\<close>

theorem handleBoundary_clamps:
  assumes "getTransform obj = Some t" and "getRigidBody obj = Some rb" and "getCollider obj = Some col"
    and "r = radius col"
  shows "\<exists>t' rb'. getTransform (handleBoundary g obj) = Some t'
       \<and> getRigidBody (handleBoundary g obj) = Some rb'
       \<and> (x (position t) - r < 0 \<longrightarrow>
            x (position t') = r \<and> x (velocity rb') = \<bar>x (velocity rb)\<bar> \<and> 0 \<le> x (velocity rb'))
       \<and> (\<not> x (position t) - r < 0 \<and> x (position t) + r > canvas_width g \<longrightarrow>
            x (position t') = canvas_width g - r \<and> x (velocity rb') = - \<bar>x (velocity rb)\<bar>
            \<and> x (velocity rb') \<le> 0)
       \<and> (y (position t) - r < 0 \<longrightarrow>
            y (position t') = r \<and> y (velocity rb') = \<bar>y (velocity rb)\<bar> \<and> 0 \<le> y (velocity rb'))
       \<and> (\<not> y (position t) - r < 0 \<and> y (position t) + r > canvas_height g \<longrightarrow>
            y (position t') = canvas_height g - r \<and> y (velocity rb') = - \<bar>y (velocity rb)\<bar>
            \<and> y (velocity rb') \<le> 0)"
proof -
  obtain t' rb' where c: "handleBoundary_clamp (canvas_width g) (canvas_height g) t rb col = (t', rb')"
    by (cases "handleBoundary_clamp (canvas_width g) (canvas_height g) t rb col")
  note f = handleBoundary_found [OF assms(1-3) c]
  from c have px: "x (position t') =
      (if x (position t) - r < 0 then r
       else if x (position t) + r > canvas_width g then canvas_width g - r else x (position t))"
    and vx: "x (velocity rb') =
      (if x (position t) - r < 0 then \<bar>x (velocity rb)\<bar>
       else if x (position t) + r > canvas_width g then - \<bar>x (velocity rb)\<bar> else x (velocity rb))"
    and py: "y (position t') =
      (if y (position t) - r < 0 then r
       else if y (position t) + r > canvas_height g then canvas_height g - r else y (position t))"
    and vy: "y (velocity rb') =
      (if y (position t) - r < 0 then \<bar>y (velocity rb)\<bar>
       else if y (position t) + r > canvas_height g then - \<bar>y (velocity rb)\<bar> else y (velocity rb))"
    by (auto simp: handleBoundary_clamp_def Let_def assms(4) split: if_splits)
  show ?thesis
    unfolding f by (simp add: px vx py vy)
qed

text \<open>
  A ball of radius 10 at \<open>(4, 145)\<close> with velocity \<open>(-3, 2)\<close> on a canvas of 300 by 150: it
  crosses the low edge in x and the high edge in y.
\<close>

theorem handleBoundary_clamps_witness:
  "\<exists>t' rb'. getTransform (handleBoundary (Game_new 300 150) (ball 4 145 \<lparr>x = - 3, y = 2\<rparr> 1 10)) = Some t'
     \<and> getRigidBody (handleBoundary (Game_new 300 150) (ball 4 145 \<lparr>x = - 3, y = 2\<rparr> 1 10)) = Some rb'
     \<and> x (position t') = 10 \<and> x (velocity rb') = 3
     \<and> y (position t') = 140 \<and> y (velocity rb') = - 2"
proof -
  have rad: "(10::real) = radius (Collider_new 10)"
    by (simp add: Collider_new_def)
  note b = ball_components [of 4 145 "\<lparr>x = - 3, y = 2\<rparr>" 1 10]
  from handleBoundary_clamps [OF b rad, of "Game_new 300 150"]
  show ?thesis
    by (auto simp: Transform_new_def RigidBody_new_def Game_new_def)
qed

text \<open>
  The claim as written fails where both edges are crossed: a ball of radius 5 at \<open>x = 1\<close>
  on a canvas of width 4 has \<open>x + r > width\<close>, and is put at \<open>x = 5\<close> with velocity \<open>+3\<close>, not
  at \<open>width - r = -1\<close> with a non-positive velocity.
\<close>

theorem handleBoundary_high_edge_counterexample:
  "x (position (Transform_new 1 50 0 0 1)) + radius (Collider_new 5) > canvas_width (Game_new 4 150)
   \<and> getTransform (ball 1 50 \<lparr>x = 3, y = 0\<rparr> 1 5) = Some (Transform_new 1 50 0 0 1)
   \<and> getCollider (ball 1 50 \<lparr>x = 3, y = 0\<rparr> 1 5) = Some (Collider_new 5)
   \<and> map_option position (getTransform (handleBoundary (Game_new 4 150) (ball 1 50 \<lparr>x = 3, y = 0\<rparr> 1 5)))
       = Some \<lparr>x = 5, y = 50\<rparr>
   \<and> map_option velocity (getRigidBody (handleBoundary (Game_new 4 150) (ball 1 50 \<lparr>x = 3, y = 0\<rparr> 1 5)))
       = Some \<lparr>x = 3, y = 0\<rparr>
   \<and> (5::real) \<noteq> canvas_width (Game_new 4 150) - radius (Collider_new 5)"
  by (simp add: handleBoundary_def handleBoundary_clamp_def Let_def new_defs get_defs
      setTransform_def setRigidBody_def)

section \<open>Collision of one pair: correction and impulse\<close>

lemma normal_unit:
  assumes "0 < centre_distance a b"
  shows "dot (pair_normal a b) (pair_normal a b) = 1"
proof -
  let ?dx = "x (position b) - x (position a)"
  let ?dy = "y (position b) - y (position a)"
  let ?d = "centre_distance a b"
  have sq: "?d\<^sup>2 = ?dx\<^sup>2 + ?dy\<^sup>2"
    by (simp add: centre_distance_def)
  have pos: "?d\<^sup>2 \<noteq> 0"
    using assms by simp
  have "dot (pair_normal a b) (pair_normal a b) = (?dx\<^sup>2 + ?dy\<^sup>2) / ?d\<^sup>2"
    using assms by (simp add: pair_normal_def dot_def power2_eq_square add_divide_distrib)
  also have "\<dots> = ?d\<^sup>2 / ?d\<^sup>2"
    by (simp only: sq)
  also have "\<dots> = 1"
    using pos by simp
  finally show ?thesis .
qed

lemma hypot_centre: "hypot (x (position b) - x (position a)) (y (position b) - y (position a)) = centre_distance a b"
  by (simp add: hypot_def centre_distance_def)

lemma collide_overlapping:
  assumes "centre_distance aT bT < radius aC + radius bC"
  shows "collide aT (Some aR) aC bT (Some bR) bC =
    (let n = pair_normal aT bT;
         cA = pair_overlap aT aC bT bC * (mass bR / (mass aR + mass bR));
         cB = pair_overlap aT aC bT bC * (mass aR / (mass aR + mass bR));
         aT' = aT\<lparr>position := \<lparr>x = x (position aT) - x n * cA, y = y (position aT) - y n * cA\<rparr>\<rparr>;
         bT' = bT\<lparr>position := \<lparr>x = x (position bT) + x n * cB, y = y (position bT) + y n * cB\<rparr>\<rparr>;
         vn = dot (rel_velocity aR bR) n
     in if vn > 0 then (aT', Some aR, bT', Some bR)
        else (let j = - (1 + min (restitution aR) (restitution bR)) * vn / (1 / mass aR + 1 / mass bR)
              in (aT',
                  Some (aR\<lparr>velocity := \<lparr>x = x (velocity aR) - j * x n / mass aR,
                                          y = y (velocity aR) - j * y n / mass aR\<rparr>\<rparr>),
                  bT',
                  Some (bR\<lparr>velocity := \<lparr>x = x (velocity bR) + j * x n / mass bR,
                                          y = y (velocity bR) + j * y n / mass bR\<rparr>\<rparr>))))"
  using assms
  unfolding collide_def Let_def hypot_centre
  by (simp add: pair_normal_def pair_overlap_def dot_def rel_velocity_def)

lemma collide_apart:
  assumes "\<not> centre_distance aT bT < radius aC + radius bC"
  shows "collide aT aR aC bT bR bC = (aT, aR, bT, bR)"
  using assms unfolding collide_def Let_def hypot_centre by simp

lemma impulse_momentum:
  fixes mA mB :: real
  assumes "mA \<noteq> 0" and "mB \<noteq> 0"
  shows "mA * (va - i / mA) + mB * (vb + i / mB) = mA * va + mB * vb"
  using assms by (simp add: field_simps)

lemma collide_impulse:
  assumes "centre_distance aT bT < radius aC + radius bC"
    and "\<not> dot (rel_velocity aR bR) (pair_normal aT bT) > 0"
    and "collide aT (Some aR) aC bT (Some bR) bC = (aT', aR', bT', bR')"
  shows "aR' = Some (aR\<lparr>velocity :=
            \<lparr>x = x (velocity aR) - impulse_scalar aR bR (pair_normal aT bT) * x (pair_normal aT bT) / mass aR,
             y = y (velocity aR) - impulse_scalar aR bR (pair_normal aT bT) * y (pair_normal aT bT) / mass aR\<rparr>\<rparr>)"
    and "bR' = Some (bR\<lparr>velocity :=
            \<lparr>x = x (velocity bR) + impulse_scalar aR bR (pair_normal aT bT) * x (pair_normal aT bT) / mass bR,
             y = y (velocity bR) + impulse_scalar aR bR (pair_normal aT bT) * y (pair_normal aT bT) / mass bR\<rparr>\<rparr>)"
  using assms(2,3) unfolding collide_overlapping [OF assms(1)] Let_def impulse_scalar_def
  by auto

lemma collide_separating:
  assumes "centre_distance aT bT < radius aC + radius bC"
    and "dot (rel_velocity aR bR) (pair_normal aT bT) > 0"
    and "collide aT (Some aR) aC bT (Some bR) bC = (aT', aR', bT', bR')"
  shows "aR' = Some aR" and "bR' = Some bR"
  using assms(2,3) unfolding collide_overlapping [OF assms(1)] Let_def
  by auto

lemma collide_ghost:
  assumes "aR = None \<or> bR = None"
  shows "collide aT aR aC bT bR bC = (aT, aR, bT, bR)"
  using assms by (auto simp: collide_def Let_def split: option.splits)

lemma collide_positions:
  assumes "centre_distance aT bT < radius aC + radius bC"
    and "collide aT (Some aR) aC bT (Some bR) bC = (aT', aR', bT', bR')"
  shows "aT' = aT\<lparr>position :=
            \<lparr>x = x (position aT) - x (pair_normal aT bT) * (pair_overlap aT aC bT bC * (mass bR / (mass aR + mass bR))),
             y = y (position aT) - y (pair_normal aT bT) * (pair_overlap aT aC bT bC * (mass bR / (mass aR + mass bR)))\<rparr>\<rparr>"
    and "bT' = bT\<lparr>position :=
            \<lparr>x = x (position bT) + x (pair_normal aT bT) * (pair_overlap aT aC bT bC * (mass aR / (mass aR + mass bR))),
             y = y (position bT) + y (pair_normal aT bT) * (pair_overlap aT aC bT bC * (mass aR / (mass aR + mass bR)))\<rparr>\<rparr>"
  using assms(2) unfolding collide_overlapping [OF assms(1)] Let_def
  by (auto split: if_splits)

lemma impulse_restitution:
  fixes mA mB :: real
  assumes "0 < mA" and "0 < mB"
    and unit: "nx * nx + ny * ny = 1 \<or> (nx = 0 \<and> ny = 0)"
    and j: "j = - (1 + e) * vn / (1 / mA + 1 / mB)"
    and vn: "vn = (vbx - vax) * nx + (vby - vay) * ny"
  shows "((vbx + j * nx / mB) - (vax - j * nx / mA)) * nx
       + ((vby + j * ny / mB) - (vay - j * ny / mA)) * ny = - e * vn"
proof -
  have k: "0 < 1 / mA + 1 / mB"
    using assms(1,2) by (simp add: add_pos_pos)
  have jk: "j * (1 / mA + 1 / mB) = - (1 + e) * vn"
    using k by (simp add: j)
  have "((vbx + j * nx / mB) - (vax - j * nx / mA)) * nx
       + ((vby + j * ny / mB) - (vay - j * ny / mA)) * ny
      = vn + (j * (1 / mA + 1 / mB)) * (nx * nx + ny * ny)"
    unfolding vn by (simp add: algebra_simps add_divide_distrib)
  also have "\<dots> = vn - (1 + e) * vn * (nx * nx + ny * ny)"
    by (simp only: jk)
  also have "\<dots> = - e * vn"
  proof -
    from unit show ?thesis
    proof
      assume "nx * nx + ny * ny = 1"
      then show ?thesis by (simp add: algebra_simps)
    next
      assume "nx = 0 \<and> ny = 0"
      then show ?thesis by (simp add: vn)
    qed
  qed
  finally show ?thesis .
qed

lemma normal_unit_or_zero:
  "x (pair_normal a b) * x (pair_normal a b) + y (pair_normal a b) * y (pair_normal a b) = 1
   \<or> (x (pair_normal a b) = 0 \<and> y (pair_normal a b) = 0)"
proof (cases "centre_distance a b = 0")
  case True
  then show ?thesis by (simp add: pair_normal_def)
next
  case False
  have "0 \<le> centre_distance a b" by (simp add: centre_distance_def)
  with False have "0 < centre_distance a b" by simp
  from normal_unit [OF this] show ?thesis by (simp add: dot_def)
qed

lemma centre_distance_axis:
  "y (position b) = y (position a) \<Longrightarrow> centre_distance a b = \<bar>x (position b) - x (position a)\<bar>"
  by (simp add: centre_distance_def)

lemma hypot_axis: "hypot a 0 = \<bar>a\<bar>"
  by (simp add: hypot_def)

lemma example_pair:
  "centre_distance (Transform_new 100 50 0 0 1) (Transform_new 116 50 0 0 1) = 16"
  "pair_normal (Transform_new 100 50 0 0 1) (Transform_new 116 50 0 0 1) = \<lparr>x = 1, y = 0\<rparr>"
  "pair_overlap (Transform_new 100 50 0 0 1) (Collider_new 10) (Transform_new 116 50 0 0 1) (Collider_new 10) = 4"
  by (simp_all add: pair_normal_def pair_overlap_def centre_distance_axis Transform_new_def Collider_new_def)

text \<open>
  Claim C3. For two overlapping entities with distinct centres that both carry Transform,
  Collider and RigidBody (of positive mass), the resolver moves A against the unit normal
  \<open>n\<close> by \<open>overlap * massB / (massA + massB)\<close> and B along \<open>n\<close> by
  \<open>overlap * massA / (massA + massB)\<close>; both amounts are positive, the two shifts along the
  normal add up to the overlap, and the heavier body moves less.
\<close>

theorem collide_positional_correction:
  assumes "0 < mass aR" and "0 < mass bR"
    and "0 < centre_distance aT bT"
    and "centre_distance aT bT < radius aC + radius bC"
    and "collide aT (Some aR) aC bT (Some bR) bC = (aT', aR', bT', bR')"
    and "n = pair_normal aT bT"
    and "cA = pair_overlap aT aC bT bC * mass bR / (mass aR + mass bR)"
    and "cB = pair_overlap aT aC bT bC * mass aR / (mass aR + mass bR)"
  shows "position aT' = \<lparr>x = x (position aT) - cA * x n, y = y (position aT) - cA * y n\<rparr>
       \<and> position bT' = \<lparr>x = x (position bT) + cB * x n, y = y (position bT) + cB * y n\<rparr>
       \<and> dot n n = 1 \<and> 0 < cA \<and> 0 < cB
       \<and> dot \<lparr>x = x (position bT') - x (position bT), y = y (position bT') - y (position bT)\<rparr> n
           - dot \<lparr>x = x (position aT') - x (position aT), y = y (position aT') - y (position aT)\<rparr> n
           = pair_overlap aT aC bT bC
       \<and> (mass bR \<le> mass aR \<longrightarrow> cA \<le> cB)
       \<and> (mass aR \<le> mass bR \<longrightarrow> cB \<le> cA)"
proof -
  let ?ov = "pair_overlap aT aC bT bC"
  let ?M = "mass aR + mass bR"
  note r = collide_positions [OF assms(4,5)]
  have M: "0 < ?M" using assms(1,2) by simp
  have ov: "0 < ?ov" using assms(4) by (simp add: pair_overlap_def)
  have unit: "dot n n = 1" unfolding assms(6) by (rule normal_unit [OF assms(3)])
  have pa: "position aT' = \<lparr>x = x (position aT) - cA * x n, y = y (position aT) - cA * y n\<rparr>"
    unfolding r assms(6,7) by (simp add: mult.commute)
  have pb: "position bT' = \<lparr>x = x (position bT) + cB * x n, y = y (position bT) + cB * y n\<rparr>"
    unfolding r assms(6,8) by (simp add: mult.commute)
  have cA: "0 < cA" unfolding assms(7) using M ov assms(2) by simp
  have cB: "0 < cB" unfolding assms(8) using M ov assms(1) by simp
  have "cA + cB = ?ov * ?M / ?M"
    unfolding assms(7,8) by (simp add: add_divide_distrib distrib_left)
  with M have sum: "cA + cB = ?ov" by simp
  have "dot \<lparr>x = x (position bT') - x (position bT), y = y (position bT') - y (position bT)\<rparr> n
           - dot \<lparr>x = x (position aT') - x (position aT), y = y (position aT') - y (position aT)\<rparr> n
        = (cA + cB) * dot n n"
    unfolding pa pb by (simp add: dot_def algebra_simps)
  with sum unit have shift: "dot \<lparr>x = x (position bT') - x (position bT), y = y (position bT') - y (position bT)\<rparr> n
           - dot \<lparr>x = x (position aT') - x (position aT), y = y (position aT') - y (position aT)\<rparr> n
        = ?ov" by simp
  have h1: "mass bR \<le> mass aR \<longrightarrow> cA \<le> cB"
    unfolding assms(7,8) using M ov by (simp add: divide_le_cancel mult_left_mono)
  have h2: "mass aR \<le> mass bR \<longrightarrow> cB \<le> cA"
    unfolding assms(7,8) using M ov by (simp add: divide_le_cancel mult_left_mono)
  from pa pb unit cA cB shift h1 h2 show ?thesis by blast
qed

theorem collide_positional_correction_witness:
  "position (fst (collide (Transform_new 100 50 0 0 1) (Some (RigidBody_new \<lparr>x = 3, y = 0\<rparr> 0 980 0.05 0.7 1 0))
       (Collider_new 10) (Transform_new 116 50 0 0 1) (Some (RigidBody_new \<lparr>x = - 1, y = 0\<rparr> 0 980 0.05 0.9 3 0))
       (Collider_new 10))) = \<lparr>x = 97, y = 50\<rparr>
   \<and> position (fst (snd (snd (collide (Transform_new 100 50 0 0 1) (Some (RigidBody_new \<lparr>x = 3, y = 0\<rparr> 0 980 0.05 0.7 1 0))
       (Collider_new 10) (Transform_new 116 50 0 0 1) (Some (RigidBody_new \<lparr>x = - 1, y = 0\<rparr> 0 980 0.05 0.9 3 0))
       (Collider_new 10))))) = \<lparr>x = 117, y = 50\<rparr>"
proof -
  let ?aT = "Transform_new 100 50 0 0 1" and ?bT = "Transform_new 116 50 0 0 1"
  let ?aR = "RigidBody_new \<lparr>x = 3, y = 0\<rparr> 0 980 0.05 0.7 1 0"
  let ?bR = "RigidBody_new \<lparr>x = - 1, y = 0\<rparr> 0 980 0.05 0.9 3 0"
  let ?C = "Collider_new 10"
  obtain aT' aR' bT' bR' where c: "collide ?aT (Some ?aR) ?C ?bT (Some ?bR) ?C = (aT', aR', bT', bR')"
    by (metis prod_cases4)
  have m: "0 < mass ?aR" "0 < mass ?bR" by (simp_all add: RigidBody_new_def)
  have d: "0 < centre_distance ?aT ?bT" "centre_distance ?aT ?bT < radius ?C + radius ?C"
    by (simp_all add: example_pair Collider_new_def)
  from collide_positional_correction [OF m d c refl refl refl]
  have "position aT' = \<lparr>x = 97, y = 50\<rparr> \<and> position bT' = \<lparr>x = 117, y = 50\<rparr>"
    unfolding example_pair by (simp add: RigidBody_new_def Transform_new_def)
  then show ?thesis using c by simp
qed

text \<open>
  Claim C4. For an overlapping pair with both RigidBodies (of positive mass) that is not
  separating, the impulse \<open>j = -(1 + e) * velAlongNormal / (1 / massA + 1 / massB)\<close> with
  \<open>e\<close> the smaller restitution, applied as \<open>velA -= j * n / massA\<close> and
  \<open>velB += j * n / massB\<close>, leaves a relative velocity along the normal of \<open>-e\<close> times the
  one before.
\<close>

theorem collide_restitution:
  assumes "0 < mass aR" and "0 < mass bR"
    and "centre_distance aT bT < radius aC + radius bC"
    and "dot (rel_velocity aR bR) (pair_normal aT bT) \<le> 0"
    and "collide aT (Some aR) aC bT (Some bR) bC = (aT', aR', bT', bR')"
    and "n = pair_normal aT bT"
    and "j = impulse_scalar aR bR n"
  shows "\<exists>ar' br'. aR' = Some ar' \<and> bR' = Some br'
           \<and> velocity ar' = \<lparr>x = x (velocity aR) - j * x n / mass aR,
                              y = y (velocity aR) - j * y n / mass aR\<rparr>
           \<and> velocity br' = \<lparr>x = x (velocity bR) + j * x n / mass bR,
                              y = y (velocity bR) + j * y n / mass bR\<rparr>
           \<and> dot (rel_velocity ar' br') n
               = - min (restitution aR) (restitution bR) * dot (rel_velocity aR bR) n"
proof -
  from assms(4) have ns: "\<not> dot (rel_velocity aR bR) (pair_normal aT bT) > 0" by simp
  note r = collide_impulse [OF assms(3) ns assms(5)]
  have alg: "((x (velocity bR) + j * x n / mass bR) - (x (velocity aR) - j * x n / mass aR)) * x n
       + ((y (velocity bR) + j * y n / mass bR) - (y (velocity aR) - j * y n / mass aR)) * y n
       = - min (restitution aR) (restitution bR) * dot (rel_velocity aR bR) n"
  proof (rule impulse_restitution [OF assms(1,2)])
    show "x n * x n + y n * y n = 1 \<or> (x n = 0 \<and> y n = 0)"
      unfolding assms(6) by (rule normal_unit_or_zero)
    show "j = - (1 + min (restitution aR) (restitution bR)) * dot (rel_velocity aR bR) n
              / (1 / mass aR + 1 / mass bR)"
      by (simp add: assms(7) impulse_scalar_def)
    show "dot (rel_velocity aR bR) n
            = (x (velocity bR) - x (velocity aR)) * x n + (y (velocity bR) - y (velocity aR)) * y n"
      by (simp add: dot_def rel_velocity_def)
  qed
  show ?thesis
    unfolding r assms(7) [symmetric] assms(6) [symmetric]
    using alg by (simp add: dot_def rel_velocity_def assms(6) assms(7))
qed

theorem collide_restitution_witness:
  "\<exists>ar' br'. collide (Transform_new 100 50 0 0 1) (Some (RigidBody_new \<lparr>x = 3, y = 0\<rparr> 0 980 0.05 0.7 1 0))
       (Collider_new 10) (Transform_new 116 50 0 0 1) (Some (RigidBody_new \<lparr>x = - 1, y = 0\<rparr> 0 980 0.05 0.9 3 0))
       (Collider_new 10)
     = (Transform_new 97 50 0 0 1, Some ar', Transform_new 117 50 0 0 1, Some br')
   \<and> dot (rel_velocity ar' br') \<lparr>x = 1, y = 0\<rparr> = 14/5
   \<and> dot (rel_velocity (RigidBody_new \<lparr>x = 3, y = 0\<rparr> 0 980 0.05 0.7 1 0)
                        (RigidBody_new \<lparr>x = - 1, y = 0\<rparr> 0 980 0.05 0.9 3 0)) \<lparr>x = 1, y = 0\<rparr> = - 4"
proof -
  let ?aT = "Transform_new 100 50 0 0 1" and ?bT = "Transform_new 116 50 0 0 1"
  let ?aR = "RigidBody_new \<lparr>x = 3, y = 0\<rparr> 0 980 0.05 0.7 1 0"
  let ?bR = "RigidBody_new \<lparr>x = - 1, y = 0\<rparr> 0 980 0.05 0.9 3 0"
  let ?C = "Collider_new 10"
  obtain aT' aR' bT' bR' where c: "collide ?aT (Some ?aR) ?C ?bT (Some ?bR) ?C = (aT', aR', bT', bR')"
    by (metis prod_cases4)
  have m: "0 < mass ?aR" "0 < mass ?bR" by (simp_all add: RigidBody_new_def)
  have d: "centre_distance ?aT ?bT < radius ?C + radius ?C"
    by (simp add: example_pair Collider_new_def)
  have vn: "dot (rel_velocity ?aR ?bR) \<lparr>x = 1, y = 0\<rparr> = - 4"
    by (simp add: dot_def rel_velocity_def RigidBody_new_def)
  then have v: "dot (rel_velocity ?aR ?bR) (pair_normal ?aT ?bT) \<le> 0"
    by (simp add: example_pair)
  have p: "aT' = Transform_new 97 50 0 0 1" "bT' = Transform_new 117 50 0 0 1"
    using collide_positions [OF d c] unfolding example_pair
    by (simp_all add: RigidBody_new_def Transform_new_def)
  from collide_restitution [OF m d v c refl refl]
  obtain ar' br' where "aR' = Some ar'" "bR' = Some br'"
     "dot (rel_velocity ar' br') \<lparr>x = 1, y = 0\<rparr> = 14/5"
    unfolding example_pair vn by (auto simp: RigidBody_new_def)
  with c p vn show ?thesis by auto
qed

text \<open>
  Claim C10. For a pair with both RigidBodies (of positive mass) the step keeps the masses
  and the total momentum \<open>massA * velA + massB * velB\<close>, whatever the restitutions, the
  positions and the radii.
\<close>

theorem collide_momentum:
  assumes "0 < mass aR" and "0 < mass bR"
    and "collide aT (Some aR) aC bT (Some bR) bC = (aT', aR', bT', bR')"
  shows "\<exists>ar' br'. aR' = Some ar' \<and> bR' = Some br' \<and> mass ar' = mass aR \<and> mass br' = mass bR
           \<and> momentum ar' br' = momentum aR bR"
proof (cases "centre_distance aT bT < radius aC + radius bC")
  case False
  with assms(3) show ?thesis by (auto simp: collide_apart)
next
  case True
  from assms(1,2) have nz: "mass aR \<noteq> 0" "mass bR \<noteq> 0" by simp_all
  show ?thesis
  proof (cases "dot (rel_velocity aR bR) (pair_normal aT bT) > 0")
    case True
    with collide_separating [OF \<open>centre_distance aT bT < radius aC + radius bC\<close> True assms(3)]
    show ?thesis by simp
  next
    case False
    note r = collide_impulse [OF True False assms(3)]
    show ?thesis
      unfolding r momentum_def
      by (simp add: impulse_momentum [OF nz])
  qed
qed

theorem collide_momentum_witness:
  "\<exists>ar' br'. collide (Transform_new 100 50 0 0 1) (Some (RigidBody_new \<lparr>x = 3, y = 0\<rparr> 0 980 0.05 0.7 1 0))
       (Collider_new 10) (Transform_new 116 50 0 0 1) (Some (RigidBody_new \<lparr>x = - 1, y = 0\<rparr> 0 980 0.05 0.9 3 0))
       (Collider_new 10)
     = (Transform_new 97 50 0 0 1, Some ar', Transform_new 117 50 0 0 1, Some br')
   \<and> momentum ar' br' = \<lparr>x = 0, y = 0\<rparr>
   \<and> velocity ar' \<noteq> \<lparr>x = 3, y = 0\<rparr>"
proof -
  let ?aT = "Transform_new 100 50 0 0 1" and ?bT = "Transform_new 116 50 0 0 1"
  let ?aR = "RigidBody_new \<lparr>x = 3, y = 0\<rparr> 0 980 0.05 0.7 1 0"
  let ?bR = "RigidBody_new \<lparr>x = - 1, y = 0\<rparr> 0 980 0.05 0.9 3 0"
  let ?C = "Collider_new 10"
  obtain aT' aR' bT' bR' where c: "collide ?aT (Some ?aR) ?C ?bT (Some ?bR) ?C = (aT', aR', bT', bR')"
    by (metis prod_cases4)
  have m: "0 < mass ?aR" "0 < mass ?bR" by (simp_all add: RigidBody_new_def)
  have d: "centre_distance ?aT ?bT < radius ?C + radius ?C"
    by (simp add: example_pair Collider_new_def)
  have v: "\<not> dot (rel_velocity ?aR ?bR) (pair_normal ?aT ?bT) > 0"
    by (simp add: example_pair dot_def rel_velocity_def RigidBody_new_def)
  have p: "aT' = Transform_new 97 50 0 0 1" "bT' = Transform_new 117 50 0 0 1"
    using collide_positions [OF d c] unfolding example_pair
    by (simp_all add: RigidBody_new_def Transform_new_def)
  have "velocity (the aR') \<noteq> \<lparr>x = 3, y = 0\<rparr>"
    using collide_impulse(1) [OF d v c] unfolding example_pair
    by (simp add: impulse_scalar_def dot_def rel_velocity_def RigidBody_new_def)
  moreover from collide_momentum [OF m c]
  obtain ar' br' where "aR' = Some ar'" "bR' = Some br'" "momentum ar' br' = \<lparr>x = 0, y = 0\<rparr>"
    by (auto simp: momentum_def RigidBody_new_def)
  ultimately show ?thesis using c p by auto
qed

lemma collide_coincident:
  assumes "0 < mass aR" and "0 < mass bR" and "position bT = position aT"
  shows "pair_normal aT bT = \<lparr>x = 0, y = 0\<rparr>
       \<and> collide aT (Some aR) aC bT (Some bR) bC = (aT, Some aR, bT, Some bR)"
proof -
  have d0: "centre_distance aT bT = 0"
    using assms(3) by (simp add: centre_distance_def)
  have n0: "pair_normal aT bT = \<lparr>x = 0, y = 0\<rparr>"
    by (simp add: pair_normal_def d0)
  show ?thesis
  proof (cases "centre_distance aT bT < radius aC + radius bC")
    case False
    then show ?thesis using n0 by (simp add: collide_apart)
  next
    case True
    show ?thesis
      unfolding collide_overlapping [OF True] Let_def n0
      by (simp add: dot_def)
  qed
qed

section \<open>Collision of one pair: the entities\<close>

text \<open>
  Claim C8. For two entities with Transform, Collider and RigidBody (of positive mass)
  whose centres coincide, the distance is 0, the normal is the zero vector, and the step of
  the resolver for the pair returns without exception and leaves every entity, so both
  positions and both velocities, as it was.
\<close>

theorem inner_body_coincident:
  assumes "i < j" and "j < length (objects scene)"
    and "getCollider (objects scene ! i) = Some aC"
    and "getCollider (objects scene ! j) = Some bC"
    and "getTransform (objects scene ! i) = Some aT"
    and "getTransform (objects scene ! j) = Some bT"
    and "getRigidBody (objects scene ! i) = Some aR"
    and "getRigidBody (objects scene ! j) = Some bR"
    and "0 < mass aR" and "0 < mass bR"
    and "position bT = position aT"
  shows "centre_distance aT bT = 0 \<and> pair_normal aT bT = \<lparr>x = 0, y = 0\<rparr>
       \<and> (\<exists>scene'. inner_body i aC j scene = Inr scene' \<and> objects scene' = objects scene)"
proof -
  have d: "centre_distance aT bT = 0"
    using assms(11) by (simp add: centre_distance_def)
  note c = collide_coincident [OF assms(9,10,11), of aC bC]
  have "\<exists>scene'. inner_body i aC j scene = Inr scene' \<and> objects scene' = objects scene"
    using assms(4-8) c
    by (simp add: inner_body_def Let_def setTransform_same setRigidBody_same)
  with d c show ?thesis by simp
qed

theorem inner_body_coincident_witness:
  "map_sum id objects (inner_body 0 (Collider_new 10) 1
      ((Game_new 300 150)\<lparr>objects := [ball 100 50 \<lparr>x = 3, y = 0\<rparr> 1 10, ball 100 50 \<lparr>x = - 1, y = 0\<rparr> 3 10]\<rparr>))
   = Inr [ball 100 50 \<lparr>x = 3, y = 0\<rparr> 1 10, ball 100 50 \<lparr>x = - 1, y = 0\<rparr> 3 10]
   \<and> pair_normal (Transform_new 100 50 0 0 1) (Transform_new 100 50 0 0 1) = \<lparr>x = 0, y = 0\<rparr>"
proof -
  let ?g = "(Game_new 300 150)\<lparr>objects := [ball 100 50 \<lparr>x = 3, y = 0\<rparr> 1 10, ball 100 50 \<lparr>x = - 1, y = 0\<rparr> 3 10]\<rparr>"
  have "centre_distance (Transform_new 100 50 0 0 1) (Transform_new 100 50 0 0 1) = 0
      \<and> pair_normal (Transform_new 100 50 0 0 1) (Transform_new 100 50 0 0 1) = \<lparr>x = 0, y = 0\<rparr>
      \<and> (\<exists>scene'. inner_body 0 (Collider_new 10) 1 ?g = Inr scene' \<and> objects scene' = objects ?g)"
    by (rule inner_body_coincident [where bC = "Collider_new 10"
          and aR = "RigidBody_new \<lparr>x = 3, y = 0\<rparr> 0 980 0.05 0.7 1 0"
          and bR = "RigidBody_new \<lparr>x = - 1, y = 0\<rparr> 0 980 0.05 0.7 3 0"])
       (simp_all add: Game_new_def ball_components RigidBody_new_def)
  then show ?thesis by (auto simp: Game_new_def)
qed

text \<open>
  Claim C6. For two entities with Collider and Transform of which at least one has no
  RigidBody, the step of the resolver for the pair returns without exception and leaves
  every entity as it was: no velocity and no position changes, overlapping or not.
\<close>

theorem inner_body_ghost:
  assumes "i < j" and "j < length (objects scene)"
    and "getCollider (objects scene ! i) = Some aC"
    and "getCollider (objects scene ! j) = Some bC"
    and "getTransform (objects scene ! i) = Some aT"
    and "getTransform (objects scene ! j) = Some bT"
    and "getRigidBody (objects scene ! i) = None \<or> getRigidBody (objects scene ! j) = None"
  shows "\<exists>scene'. inner_body i aC j scene = Inr scene' \<and> objects scene' = objects scene"
  using assms(4-7)
  by (simp add: inner_body_def Let_def collide_ghost setTransform_same setRigidBody_same)

theorem inner_body_ghost_witness:
  "map_sum id objects (inner_body 0 (Collider_new 10) 1
      ((Game_new 300 150)\<lparr>objects := [ball 100 50 \<lparr>x = 3, y = 0\<rparr> 1 10, obstacle 116 50 10]\<rparr>))
   = Inr [ball 100 50 \<lparr>x = 3, y = 0\<rparr> 1 10, obstacle 116 50 10]"
proof -
  let ?g = "(Game_new 300 150)\<lparr>objects := [ball 100 50 \<lparr>x = 3, y = 0\<rparr> 1 10, obstacle 116 50 10]\<rparr>"
  have "\<exists>scene'. inner_body 0 (Collider_new 10) 1 ?g = Inr scene' \<and> objects scene' = objects ?g"
    by (rule inner_body_ghost [where aT = "Transform_new 100 50 0 0 1" and bT = "Transform_new 116 50 0 0 1"
          and bC = "Collider_new 10"])
       (simp_all add: Game_new_def ball_components obstacle_components)
  then show ?thesis by (auto simp: Game_new_def)
qed

section \<open>The order of a tick\<close>

lemma inner_body_trace:
  assumes "inner_body i aC j g = Inr g'"
  shows "length (objects g') = length (objects g)
       \<and> (\<exists>ins. trace g' = trace g @ ins \<and> list_all is_Inspected ins)"
  using assms
  by (auto simp: inner_body_def Let_def split: option.splits prod.splits)

lemma inner_loop_trace:
  assumes "inner_loop i aC js g = Inr g'"
  shows "length (objects g') = length (objects g)
       \<and> (\<exists>ins. trace g' = trace g @ ins \<and> list_all is_Inspected ins)"
  using assms
proof (induction js arbitrary: g)
  case Nil
  then show ?case by simp
next
  case (Cons j js)
  from Cons.prems obtain g1 where b: "inner_body i aC j g = Inr g1"
    and l: "inner_loop i aC js g1 = Inr g'"
    by (auto split: sum.splits)
  from inner_body_trace [OF b] obtain ins1 where
    1: "length (objects g1) = length (objects g)" "trace g1 = trace g @ ins1" "list_all is_Inspected ins1"
    by blast
  from Cons.IH [OF l] obtain ins2 where
    2: "length (objects g') = length (objects g1)" "trace g' = trace g1 @ ins2" "list_all is_Inspected ins2"
    by blast
  from 1 2 have "trace g' = trace g @ (ins1 @ ins2)" "list_all is_Inspected (ins1 @ ins2)"
    by simp_all
  with 1 2 show ?case by metis
qed

lemma outer_body_trace:
  assumes "outer_body i g = Inr g'"
  shows "length (objects g') = length (objects g)
       \<and> (\<exists>ins. trace g' = trace g @ ins \<and> list_all is_Inspected ins)"
proof (cases "getCollider (objects g ! i)")
  case None
  with assms have "g' = g" by (simp add: outer_body_def)
  then show ?thesis by simp
next
  case (Some aC)
  with assms have "inner_loop i aC [i + 1..<length (objects g)] g = Inr g'"
    by (simp add: outer_body_def)
  then show ?thesis by (rule inner_loop_trace)
qed

lemma outer_loop_trace:
  assumes "outer_loop is g = Inr g'"
  shows "length (objects g') = length (objects g)
       \<and> (\<exists>ins. trace g' = trace g @ ins \<and> list_all is_Inspected ins)"
  using assms
proof (induction "is" arbitrary: g)
  case Nil
  then show ?case by simp
next
  case (Cons i "is")
  from Cons.prems obtain g1 where b: "outer_body i g = Inr g1"
    and l: "outer_loop is g1 = Inr g'"
    by (auto split: sum.splits)
  from outer_body_trace [OF b] obtain ins1 where
    1: "length (objects g1) = length (objects g)" "trace g1 = trace g @ ins1" "list_all is_Inspected ins1"
    by blast
  from Cons.IH [OF l] obtain ins2 where
    2: "length (objects g') = length (objects g1)" "trace g' = trace g1 @ ins2" "list_all is_Inspected ins2"
    by blast
  from 1 2 have "trace g' = trace g @ (ins1 @ ins2)" "list_all is_Inspected (ins1 @ ins2)"
    by simp_all
  with 1 2 show ?case by metis
qed

lemma plugin_update_trace:
  assumes "plugin_update p g dt = Inr g'"
  shows "length (objects g') = length (objects g)
       \<and> (\<exists>ins. trace g' = trace g @ ins \<and> list_all is_Inspected ins)"
proof (cases p)
  case CollisionSystem
  with assms have "outer_loop [0..<length (objects g)] g = Inr g'"
    by (simp add: CollisionSystem_update_def)
  then show ?thesis by (rule outer_loop_trace)
next
  case Plugin
  with assms have "g' = g" by simp
  then show ?thesis by simp
qed

lemma plugins_loop_trace:
  assumes "plugins_loop ps g dt = Inr g'"
  shows "length (objects g') = length (objects g)
       \<and> (\<exists>ins. trace g' = trace g @ ins \<and> list_all is_Inspected ins)"
  using assms
proof (induction ps arbitrary: g)
  case Nil
  then show ?case by simp
next
  case (Cons p ps)
  from Cons.prems obtain g1 where b: "plugin_update p g dt = Inr g1"
    and l: "plugins_loop ps g1 dt = Inr g'"
    by (auto split: sum.splits)
  from plugin_update_trace [OF b] obtain ins1 where
    1: "length (objects g1) = length (objects g)" "trace g1 = trace g @ ins1" "list_all is_Inspected ins1"
    by blast
  from Cons.IH [OF l] obtain ins2 where
    2: "length (objects g') = length (objects g1)" "trace g' = trace g1 @ ins2" "list_all is_Inspected ins2"
    by blast
  from 1 2 have "trace g' = trace g @ (ins1 @ ins2)" "list_all is_Inspected (ins1 @ ins2)"
    by simp_all
  with 1 2 show ?case by metis
qed

lemma foldl_object_step_trace:
  "trace (foldl (object_step dt) g ks) = trace g @ map Updated ks"
  by (induction ks arbitrary: g) (simp_all add: object_step_def Let_def)

lemma inspections_then_updates_append:
  assumes "list_all is_Inspected ins"
  shows "inspections_then_updates (ins @ map Updated ks)"
proof -
  from assms have "dropWhile is_Inspected (ins @ map Updated ks) = dropWhile is_Inspected (map Updated ks)"
    by (simp add: dropWhile_append2 list_all_iff)
  moreover have "list_all is_Updated (dropWhile is_Inspected (map Updated ks))"
    unfolding list_all_iff
  proof
    fix e assume "e \<in> set (dropWhile is_Inspected (map Updated ks))"
    then have "e \<in> set (map Updated ks)" by (rule set_dropWhileD)
    then show "is_Updated e" by auto
  qed
  ultimately show ?thesis by (simp add: inspections_then_updates_def)
qed

lemma tick_trace_two_balls:
  "tick_trace two_balls (1/60) = Some [Inspected 1, Inspected 0, Updated 0, Updated 1]"
  by (simp add: tick_trace_def Game_update_def CollisionSystem_update_def outer_body_def
      inner_body_def object_step_def collide_def hypot_axis Let_def two_balls_def new_defs get_defs
      setTransform_def setRigidBody_def split: prod.splits)

text \<open>
  Claim C1, as the code has it. In a tick of \<open>Game.update\<close> that completes, the plugins run
  first: every read of a Transform by the resolver comes before the update, and so before
  the integration, of any entity in that tick. The trace of the tick is a sequence of
  inspections followed by the updates of all entities in the order of the entity list, so
  the resolver sees the positions that the previous tick left, and the two phases never
  interleave.
\<close>

theorem Game_update_resolver_first:
  assumes "tick_trace g dt = Some tr"
  shows "(\<exists>ins. list_all is_Inspected ins \<and> tr = ins @ map Updated [0..<length (objects g)])
       \<and> inspections_then_updates tr"
proof -
  from assms obtain g1 where p: "plugins_loop (plugins g) (g\<lparr>trace := []\<rparr>) dt = Inr g1"
    and tr: "tr = trace (foldl (object_step dt) g1 [0..<length (objects g1)])"
    by (auto simp: tick_trace_def Game_update_def split: sum.splits)
  from plugins_loop_trace [OF p] obtain ins where
    1: "length (objects g1) = length (objects g)" "trace g1 = ins" "list_all is_Inspected ins"
    by auto
  from tr 1 have eq: "tr = ins @ map Updated [0..<length (objects g)]"
    by (simp add: foldl_object_step_trace)
  with 1(3) inspections_then_updates_append [OF 1(3)] show ?thesis by auto
qed

theorem Game_update_resolver_first_witness:
  "(\<exists>ins. list_all is_Inspected ins
       \<and> [Inspected 1, Inspected 0, Updated 0, Updated 1] = ins @ map Updated [0..<length (objects two_balls)])
   \<and> inspections_then_updates [Inspected 1, Inspected 0, Updated 0, Updated 1]"
  using Game_update_resolver_first [OF tick_trace_two_balls] .

text \<open>
  The claim as written, every update of the tick before every inspection, fails on the two
  overlapping balls: the resolver reads both Transforms before either entity is updated.
\<close>

theorem Game_update_integration_first_counterexample:
  "tick_trace two_balls (1/60) = Some [Inspected 1, Inspected 0, Updated 0, Updated 1]
   \<and> \<not> updates_then_inspections [Inspected 1, Inspected 0, Updated 0, Updated 1]"
  using tick_trace_two_balls by (simp add: updates_then_inspections_def)

section \<open>Missing components\<close>

text \<open>
  The resolver completes whenever every entity with a Collider has a Transform, whatever
  else is missing.
\<close>

lemma placed_store:
  assumes "getCollider obj \<noteq> None \<longrightarrow> getTransform obj \<noteq> None"
  shows "getCollider (setRigidBody ropt (setTransform t obj)) \<noteq> None
           \<longrightarrow> getTransform (setRigidBody ropt (setTransform t obj)) \<noteq> None"
  using assms
  by (cases ropt)
     (auto simp: get_defs setRigidBody_def setTransform_def firstTransform_replaceTransform
        firstCollider_replaceTransform firstTransform_replaceRigidBody firstCollider_replaceRigidBody)

lemma colliders_placed_update:
  assumes "colliders_placed objs"
    and "getCollider obj \<noteq> None \<longrightarrow> getTransform obj \<noteq> None"
  shows "colliders_placed (objs[k := obj])"
  unfolding colliders_placed_def list_all_iff
proof
  fix obj' assume "obj' \<in> set (objs[k := obj])"
  then have "obj' = obj \<or> obj' \<in> set objs"
    using set_update_subset_insert [of objs k obj] by auto
  with assms show "getCollider obj' \<noteq> None \<longrightarrow> getTransform obj' \<noteq> None"
    unfolding colliders_placed_def list_all_iff by blast
qed

lemma colliders_placed_nth:
  assumes "colliders_placed objs" and "k < length objs" and "getCollider (objs ! k) = Some c"
  shows "\<exists>t. getTransform (objs ! k) = Some t"
  using assms unfolding colliders_placed_def list_all_length by auto

lemma inner_body_total:
  assumes "colliders_placed (objects g)" and "i < length (objects g)" and "j < length (objects g)"
    and "getCollider (objects g ! i) = Some aC"
  shows "\<exists>g'. inner_body i aC j g = Inr g' \<and> colliders_placed (objects g')
           \<and> length (objects g') = length (objects g)
           \<and> (getCollider (objects g' ! i) = Some aC)"
proof (cases "getCollider (objects g ! j)")
  case None
  with assms show ?thesis by (simp add: inner_body_def Let_def)
next
  case (Some bC)
  from colliders_placed_nth [OF assms(1,3) Some] obtain bT where bT: "getTransform (objects g ! j) = Some bT" ..
  from colliders_placed_nth [OF assms(1,2,4)] obtain aT where aT: "getTransform (objects g ! i) = Some aT" ..
  obtain aT' aR' bT' bR' where c:
    "collide aT (getRigidBody (objects g ! i)) aC bT (getRigidBody (objects g ! j)) bC = (aT', aR', bT', bR')"
    by (metis prod_cases4)
  let ?a = "setRigidBody aR' (setTransform aT' (objects g ! i))"
  let ?b = "setRigidBody bR' (setTransform bT' (objects g ! j))"
  have pa: "getCollider ?a \<noteq> None \<longrightarrow> getTransform ?a \<noteq> None"
    by (rule placed_store) (simp add: aT)
  have pb: "getCollider ?b \<noteq> None \<longrightarrow> getTransform ?b \<noteq> None"
    by (rule placed_store) (simp add: bT)
  have eq: "inner_body i aC j g =
      Inr (g\<lparr>objects := (objects g)[i := ?a, j := ?b], trace := trace g @ [Inspected j, Inspected i]\<rparr>)"
    by (simp add: inner_body_def Let_def Some aT bT c)
  have placed: "colliders_placed ((objects g)[i := ?a, j := ?b])"
    by (intro colliders_placed_update assms(1) pa pb)
  have ca: "getCollider ?a = Some aC"
    using assms(4)
    by (cases aR') (simp_all add: get_defs setRigidBody_def setTransform_def
        firstCollider_replaceTransform firstCollider_replaceRigidBody)
  have cb: "i = j \<Longrightarrow> getCollider ?b = Some aC"
    using assms(4)
    by (cases bR') (simp_all add: get_defs setRigidBody_def setTransform_def
        firstCollider_replaceTransform firstCollider_replaceRigidBody)
  have "getCollider ((objects g)[i := ?a, j := ?b] ! i) = Some aC"
    using assms(2,3) ca cb by (cases "i = j") simp_all
  with eq placed show ?thesis by simp
qed

lemma inner_loop_total:
  assumes "colliders_placed (objects g)" and "i < length (objects g)"
    and "\<forall>j \<in> set js. j < length (objects g)"
    and "getCollider (objects g ! i) = Some aC"
  shows "\<exists>g'. inner_loop i aC js g = Inr g' \<and> colliders_placed (objects g')
           \<and> length (objects g') = length (objects g)"
  using assms
proof (induction js arbitrary: g)
  case Nil
  then show ?case by simp
next
  case (Cons j js)
  from Cons.prems have j: "j < length (objects g)" by simp
  from inner_body_total [OF Cons.prems(1,2) j Cons.prems(4)] obtain g1 where
    1: "inner_body i aC j g = Inr g1" "colliders_placed (objects g1)"
       "length (objects g1) = length (objects g)" "getCollider (objects g1 ! i) = Some aC"
    by blast
  from Cons.prems 1 have "\<forall>j \<in> set js. j < length (objects g1)" "i < length (objects g1)"
    by simp_all
  from Cons.IH [OF 1(2) this(2) this(1) 1(4)] obtain g' where
    "inner_loop i aC js g1 = Inr g'" "colliders_placed (objects g')"
    "length (objects g') = length (objects g1)"
    by blast
  with 1 show ?case by simp
qed

lemma outer_body_total:
  assumes "colliders_placed (objects g)" and "i < length (objects g)"
  shows "\<exists>g'. outer_body i g = Inr g' \<and> colliders_placed (objects g')
           \<and> length (objects g') = length (objects g)"
proof (cases "getCollider (objects g ! i)")
  case None
  with assms show ?thesis by (simp add: outer_body_def)
next
  case (Some aC)
  have "\<forall>j \<in> set [i + 1..<length (objects g)]. j < length (objects g)" by simp
  from inner_loop_total [OF assms this Some] Some show ?thesis
    by (simp add: outer_body_def)
qed

lemma outer_loop_total:
  assumes "colliders_placed (objects g)" and "\<forall>i \<in> set is. i < length (objects g)"
  shows "\<exists>g'. outer_loop is g = Inr g' \<and> colliders_placed (objects g')
           \<and> length (objects g') = length (objects g)"
  using assms
proof (induction "is" arbitrary: g)
  case Nil
  then show ?case by simp
next
  case (Cons i "is")
  from Cons.prems have i: "i < length (objects g)" by simp
  from outer_body_total [OF Cons.prems(1) i] obtain g1 where
    1: "outer_body i g = Inr g1" "colliders_placed (objects g1)"
       "length (objects g1) = length (objects g)"
    by blast
  from Cons.prems 1 have "\<forall>i \<in> set is. i < length (objects g1)" by simp
  from Cons.IH [OF 1(2) this] obtain g' where
    "outer_loop is g1 = Inr g'" "colliders_placed (objects g')"
    "length (objects g') = length (objects g1)"
    by blast
  with 1 show ?case by simp
qed

lemma CollisionSystem_update_total:
  assumes "colliders_placed (objects g)"
  shows "\<exists>g'. CollisionSystem_update g dt = Inr g'"
proof -
  have "\<forall>i \<in> set [0..<length (objects g)]. i < length (objects g)" by simp
  from outer_loop_total [OF assms this] show ?thesis
    by (auto simp: CollisionSystem_update_def)
qed

text \<open>
  Claim C9. \<open>RigidBody.update\<close>, the boundary handling and \<open>CollisionSystem.update\<close> never
  throw, whatever components are missing. The first two skip the entity; the resolver does
  not: with two entities that carry a Collider, the second without a Transform, the pass
  ends in a TypeError.
\<close>

theorem CollisionSystem_update_missing_Transform:
  "CollisionSystem_update
     ((Game_new 300 150)\<lparr>objects :=
        [obstacle 100 50 10, addComponent (ColliderC (Collider_new 10)) GameObject_new]\<rparr>) (1/60)
   = Inl TypeError"
  by (simp add: CollisionSystem_update_def outer_body_def inner_body_def Let_def new_defs get_defs)

end
